theory Spec2Isabelle
  imports Main "HOL-Library.Word"
begin

unbundle bit_operations_syntax

section \<open>The cpu_input_boost driver of kernel_xiaomi_whyred\<close>

text \<open>
  The repository holds two variants of \<^verbatim>\<open>cpu_input_boost.c\<close>:
  \<^item> the richer one (\<^verbatim>\<open>src/unnamed/part_001\<close>) with the in-kernel powerHAL: the boost and
    max-boost bits, their delayed works, the max-boost expiry deadline, the CPU-DMA-latency
    request and the CPUBW hysteresis hints;
  \<^item> the basic one (\<^verbatim>\<open>src/drivers/cpufreq/cpu_input_boost.c\<close>) with the screen-off bit only.

  Functions of the basic variant carry the suffix \<open>_basic\<close>; functions whose text is the
  same in both files (\<open>get_min_freq\<close>, \<open>get_idle_freq\<close>, \<open>cpu_boost_thread\<close>) are modelled
  once.
\<close>

subsection \<open>Machine integers, bit operations, jiffies\<close>

type_synonym ulong = "64 word"
type_synonym uint = "32 word"
type_synonym ushort = "16 word"

text \<open>The anonymous enum of the richer variant: bit numbers inside \<open>boost_drv.state\<close>.\<close>

definition SCREEN_OFF :: nat where
  "SCREEN_OFF = 0"

definition POWERHAL_BOOST :: nat where
  "POWERHAL_BOOST = 1"

definition POWERHAL_MAX_BOOST :: nat where
  "POWERHAL_MAX_BOOST = 2"

text \<open>
  The kernel's atomic bit operations on an \<open>unsigned long\<close>: each is one atomic
  read-modify-write of the whole word, so it is a function on the word.
\<close>

definition test_bit :: "nat \<Rightarrow> ulong \<Rightarrow> bool" where
  "test_bit nr w = bit w nr"

definition set_bit_ul :: "nat \<Rightarrow> ulong \<Rightarrow> ulong" where
  "set_bit_ul nr w = w OR push_bit nr 1"

definition clear_bit :: "nat \<Rightarrow> ulong \<Rightarrow> ulong" where
  "clear_bit nr w = w AND NOT (push_bit nr 1)"

text \<open>
  \<^verbatim>\<open>time_after(a, b)\<close> is \<^verbatim>\<open>((long)((b) - (a)) < 0)\<close>: the comparison of two jiffies
  values that survives the wrap-around of the counter.
\<close>

definition time_after :: "ulong \<Rightarrow> ulong \<Rightarrow> bool" where
  "time_after a b = (sint (b - a) < 0)"

definition time_after_eq :: "ulong \<Rightarrow> ulong \<Rightarrow> bool" where
  "time_after_eq a b = (0 \<le> sint (a - b))"

text \<open>
  \<^verbatim>\<open>atomic_long_cmpxchg(v, old, new)\<close> on the content of the cell: the content afterwards
  and the value returned (the content before).
\<close>

definition atomic_long_cmpxchg :: "ulong \<Rightarrow> ulong \<Rightarrow> ulong \<Rightarrow> ulong \<times> ulong" where
  "atomic_long_cmpxchg v old new = (if v = old then new else v, v)"

subsection \<open>What the driver takes from the rest of the kernel\<close>

text \<open>
  Constants, macros and helpers of kernel headers that are not under \<^verbatim>\<open>src/\<close> are
  parameters: \<open>msecs_to_jiffies\<close> (it depends on \<open>HZ\<close>), the CPU mask of the low-power
  cluster, and the values of \<^verbatim>\<open>CPUFREQ_ADJUST\<close>, \<^verbatim>\<open>FB_EARLY_EVENT_BLANK\<close>,
  \<^verbatim>\<open>FB_BLANK_UNBLANK\<close> and \<^verbatim>\<open>PM_QOS_CPU_DMA_LAT_DEFAULT_VALUE\<close>.
\<close>

record kernel =
  msecs_to_jiffies :: "uint \<Rightarrow> ulong"
  cpu_lp_mask :: "nat set"
  CPUFREQ_ADJUST :: ulong
  FB_EARLY_EVENT_BLANK :: ulong
  FB_BLANK_UNBLANK :: int
  PM_QOS_CPU_DMA_LAT_DEFAULT_VALUE :: int

definition cpumask_test_cpu :: "nat \<Rightarrow> nat set \<Rightarrow> bool" where
  "cpumask_test_cpu c cpumask = (c \<in> cpumask)"

text \<open>The module parameters (\<^verbatim>\<open>module_param\<close>), writable at run time.\<close>

record params =
  idle_min_freq_lp :: uint
  boost_min_freq_lp :: uint
  powerhal_boost_duration :: ushort

subsection \<open>The driver state\<close>

text \<open>
  A \<^verbatim>\<open>struct delayed_work\<close> is one slot: idle (\<open>None\<close>) or pending with the jiffies value
  at which its worker runs. The wait queue is observed through the number of
  \<^verbatim>\<open>wake_up\<close> calls made on it.
\<close>

type_synonym delayed_work = "ulong option"

record boost_drv =
  powerhal_unboost :: delayed_work
  powerhal_max_unboost :: delayed_work
  boost_waitq :: nat
  powerhal_max_boost_expires :: ulong
  state :: ulong
  pm_qos_req :: int

text \<open>\<^verbatim>\<open>boost_drv_g\<close>: static storage, everything zero, both works idle.\<close>

definition boost_drv_g :: boost_drv where
  "boost_drv_g = \<lparr>powerhal_unboost = None, powerhal_max_unboost = None, boost_waitq = 0,
     powerhal_max_boost_expires = 0, state = 0, pm_qos_req = 0\<rparr>"

definition wake_up :: "boost_drv \<Rightarrow> boost_drv" where
  "wake_up b = b\<lparr>boost_waitq := Suc (boost_waitq b)\<rparr>"

text \<open>
  Modelled from the spec: the workqueue facility (\<^verbatim>\<open>mod_delayed_work\<close> and the running
  of a due work) is not under \<^verbatim>\<open>src/\<close>. The spec: ``rearming an already-pending timer
  reschedules it rather than stacking a second firing''. The result is the kernel's
  documented one: true when the work was pending and its timer was modified, false
  when it was idle and has been queued.
\<close>

definition mod_delayed_work :: "ulong \<Rightarrow> delayed_work \<Rightarrow> ulong \<Rightarrow> bool \<times> delayed_work" where
  "mod_delayed_work jiffies dwork delay = (dwork \<noteq> None, Some (jiffies + delay))"

subsection \<open>The kick entry points (richer variant)\<close>

text \<open>\<^verbatim>\<open>__powerhal_boost_kick\<close> at the jiffies value \<open>jiffies\<close>.\<close>

definition u_powerhal_boost_kick :: "kernel \<Rightarrow> params \<Rightarrow> ulong \<Rightarrow> boost_drv \<Rightarrow> boost_drv" where
  "u_powerhal_boost_kick k p jiffies b =
     (if test_bit SCREEN_OFF (state b) then b
      else if powerhal_boost_duration p = 0 then b
      else
        let b1 = b\<lparr>state := set_bit_ul POWERHAL_BOOST (state b)\<rparr>;
            r = mod_delayed_work jiffies (powerhal_unboost b1)
                  (msecs_to_jiffies k (ucast (powerhal_boost_duration p)));
            b2 = b1\<lparr>powerhal_unboost := snd r\<rparr>
        in if \<not> fst r then wake_up b2 else b2)"

definition powerhal_boost_kick :: "kernel \<Rightarrow> params \<Rightarrow> ulong \<Rightarrow> boost_drv \<Rightarrow> boost_drv" where
  "powerhal_boost_kick k p jiffies b = u_powerhal_boost_kick k p jiffies b"

text \<open>
  The \<^verbatim>\<open>do ... while\<close> loop of \<^verbatim>\<open>__powerhal_boost_kick_max\<close> when no other context writes
  the deadline in between: \<open>None\<close> is the early \<^verbatim>\<open>return\<close> (a longer boost is in effect),
  \<open>Some e\<close> is the content of the cell after the compare-and-swap went through. The loop
  repeats only when the compare-and-swap returns something else than the value just
  read, which cannot happen here; that is its termination proof. The interleaving with
  other callers is \<open>kick_max_step\<close> below.
\<close>

function kick_max_cas :: "ulong \<Rightarrow> ulong \<Rightarrow> ulong \<Rightarrow> ulong option" where
  "kick_max_cas jiffies boost_jiffies expires =
     (let curr_expires = expires;
          new_expires = jiffies + boost_jiffies
      in if time_after curr_expires new_expires then None
         else if snd (atomic_long_cmpxchg expires curr_expires new_expires) \<noteq> curr_expires
              then kick_max_cas jiffies boost_jiffies
                     (fst (atomic_long_cmpxchg expires curr_expires new_expires))
              else Some (fst (atomic_long_cmpxchg expires curr_expires new_expires)))"
  by pat_completeness auto
termination
  by (relation "{}") (simp_all add: atomic_long_cmpxchg_def)

text \<open>\<^verbatim>\<open>__powerhal_boost_kick_max\<close> at the jiffies value \<open>jiffies\<close>.\<close>

definition u_powerhal_boost_kick_max ::
    "kernel \<Rightarrow> ulong \<Rightarrow> uint \<Rightarrow> boost_drv \<Rightarrow> boost_drv" where
  "u_powerhal_boost_kick_max k jiffies duration_ms b =
     (let boost_jiffies = msecs_to_jiffies k duration_ms
      in if test_bit SCREEN_OFF (state b) then b
         else case kick_max_cas jiffies boost_jiffies (powerhal_max_boost_expires b) of
           None \<Rightarrow> b
         | Some e \<Rightarrow>
             let b1 = b\<lparr>powerhal_max_boost_expires := e,
                        state := set_bit_ul POWERHAL_MAX_BOOST (state b)\<rparr>;
                 r = mod_delayed_work jiffies (powerhal_max_unboost b1) boost_jiffies;
                 b2 = b1\<lparr>powerhal_max_unboost := snd r\<rparr>
             in if \<not> fst r then wake_up b2 else b2)"

definition powerhal_boost_kick_max :: "kernel \<Rightarrow> ulong \<Rightarrow> uint \<Rightarrow> boost_drv \<Rightarrow> boost_drv" where
  "powerhal_boost_kick_max k jiffies duration_ms b = u_powerhal_boost_kick_max k jiffies duration_ms b"

subsection \<open>Concurrent callers of kick_max\<close>

text \<open>
  One caller of \<^verbatim>\<open>__powerhal_boost_kick_max\<close> as a sequence of atomic steps on the shared
  \<open>boost_drv\<close>; between two steps of one caller any other context may run. The program
  counter names the next atomic access: the test of the screen-off bit, the read of the
  deadline (with the early return), the compare-and-swap with the values read before,
  \<^verbatim>\<open>set_bit\<close>, \<^verbatim>\<open>mod_delayed_work\<close> with the conditional \<^verbatim>\<open>wake_up\<close>, and the return.
\<close>

datatype kick_max_pc =
    KM_test_screen_off
  | KM_read_expires
  | KM_cmpxchg ulong ulong
  | KM_set_bit
  | KM_mod_delayed_work
  | KM_return

fun kick_max_step ::
    "kernel \<Rightarrow> ulong \<Rightarrow> uint \<Rightarrow> kick_max_pc \<Rightarrow> boost_drv \<Rightarrow> kick_max_pc \<times> boost_drv" where
  "kick_max_step k jiffies duration_ms KM_test_screen_off b =
     (if test_bit SCREEN_OFF (state b) then (KM_return, b) else (KM_read_expires, b))"
| "kick_max_step k jiffies duration_ms KM_read_expires b =
     (let curr_expires = powerhal_max_boost_expires b;
          new_expires = jiffies + msecs_to_jiffies k duration_ms
      in if time_after curr_expires new_expires then (KM_return, b)
         else (KM_cmpxchg curr_expires new_expires, b))"
| "kick_max_step k jiffies duration_ms (KM_cmpxchg curr_expires new_expires) b =
     (let r = atomic_long_cmpxchg (powerhal_max_boost_expires b) curr_expires new_expires
      in if snd r \<noteq> curr_expires then (KM_read_expires, b\<lparr>powerhal_max_boost_expires := fst r\<rparr>)
         else (KM_set_bit, b\<lparr>powerhal_max_boost_expires := fst r\<rparr>))"
| "kick_max_step k jiffies duration_ms KM_set_bit b =
     (KM_mod_delayed_work, b\<lparr>state := set_bit_ul POWERHAL_MAX_BOOST (state b)\<rparr>)"
| "kick_max_step k jiffies duration_ms KM_mod_delayed_work b =
     (let r = mod_delayed_work jiffies (powerhal_max_unboost b) (msecs_to_jiffies k duration_ms);
          b2 = b\<lparr>powerhal_max_unboost := snd r\<rparr>
      in (KM_return, if \<not> fst r then wake_up b2 else b2))"
| "kick_max_step k jiffies duration_ms KM_return b = (KM_return, b)"

text \<open>
  Several callers: each has its argument and its program counter. A schedule is the
  list of the steps taken: which caller moves, and the value of \<^verbatim>\<open>jiffies\<close> it sees.
\<close>

type_synonym kick_max_callers = "(uint \<times> kick_max_pc) list"

definition sched_step ::
    "kernel \<Rightarrow> nat \<times> ulong \<Rightarrow> kick_max_callers \<times> boost_drv \<Rightarrow> kick_max_callers \<times> boost_drv" where
  "sched_step k ev sys =
     (let i = fst ev; cs = fst sys
      in if i < length cs
         then let r = kick_max_step k (snd ev) (fst (cs ! i)) (snd (cs ! i)) (snd sys)
              in (cs[i := (fst (cs ! i), fst r)], snd r)
         else sys)"

fun run_schedule ::
    "kernel \<Rightarrow> (nat \<times> ulong) list \<Rightarrow> kick_max_callers \<times> boost_drv \<Rightarrow> kick_max_callers \<times> boost_drv" where
  "run_schedule k [] sys = sys"
| "run_schedule k (ev # evs) sys = run_schedule k evs (sched_step k ev sys)"


subsection \<open>Expiry of the boosts\<close>

definition powerhal_unboost_worker :: "boost_drv \<Rightarrow> boost_drv" where
  "powerhal_unboost_worker b = wake_up (b\<lparr>state := clear_bit POWERHAL_BOOST (state b)\<rparr>)"

definition powerhal_max_unboost_worker :: "boost_drv \<Rightarrow> boost_drv" where
  "powerhal_max_unboost_worker b = wake_up (b\<lparr>state := clear_bit POWERHAL_MAX_BOOST (state b)\<rparr>)"

text \<open>
  Modelled from the spec: the workqueue running the works that are due (not under
  \<^verbatim>\<open>src/\<close>). At the jiffies value \<open>jiffies\<close> a pending work whose expiry is reached leaves
  its slot and its worker runs: ``Boost timer fires: clear boost, wake coordinator'',
  ``Max-boost timer fires: clear max-boost, wake coordinator''.
\<close>

definition run_delayed_work :: "ulong \<Rightarrow> boost_drv \<Rightarrow> boost_drv" where
  "run_delayed_work jiffies b =
     (let b1 = (case powerhal_unboost b of
                  None \<Rightarrow> b
                | Some e \<Rightarrow> if time_after_eq jiffies e
                            then powerhal_unboost_worker (b\<lparr>powerhal_unboost := None\<rparr>) else b)
      in case powerhal_max_unboost b1 of
           None \<Rightarrow> b1
         | Some e \<Rightarrow> if time_after_eq jiffies e
                     then powerhal_max_unboost_worker (b1\<lparr>powerhal_max_unboost := None\<rparr>) else b1)"

subsection \<open>The floor of a policy\<close>

text \<open>
  \<^verbatim>\<open>struct cpufreq_policy\<close>, the fields the driver touches: \<^verbatim>\<open>cpu\<close>,
  \<^verbatim>\<open>cpuinfo.min_freq\<close> and \<^verbatim>\<open>min\<close> (the floor, in kHz).
\<close>

record cpufreq_policy =
  cpu :: nat
  cpuinfo_min_freq :: uint
  policy_min :: uint

text \<open>
  In \<^verbatim>\<open>get_min_freq\<close> and \<^verbatim>\<open>get_idle_freq\<close> the local \<^verbatim>\<open>freq\<close> is declared without a
  value and assigned only under the test of the low-power mask. The local is an
  option: \<open>None\<close> until it is assigned, and reading it then is the fault
  \<open>Uninitialized_read\<close> in place of the value.
\<close>

datatype fault = Uninitialized_read

definition get_min_freq :: "kernel \<Rightarrow> params \<Rightarrow> cpufreq_policy \<Rightarrow> fault + uint" where
  "get_min_freq k p policy =
     (let freq = (if cpumask_test_cpu (cpu policy) (cpu_lp_mask k)
                  then Some (boost_min_freq_lp p) else None)
      in case freq of
           None \<Rightarrow> Inl Uninitialized_read
         | Some f \<Rightarrow> Inr (max f (cpuinfo_min_freq policy)))"

definition get_idle_freq :: "kernel \<Rightarrow> params \<Rightarrow> cpufreq_policy \<Rightarrow> fault + uint" where
  "get_idle_freq k p policy =
     (let freq = (if cpumask_test_cpu (cpu policy) (cpu_lp_mask k)
                  then Some (idle_min_freq_lp p) else None)
      in case freq of
           None \<Rightarrow> Inl Uninitialized_read
         | Some f \<Rightarrow> Inr (max f (cpuinfo_min_freq policy)))"

subsection \<open>The policy-notifier bridge\<close>

text \<open>
  Modelled from the spec: the sinks of the secondary hints are defined outside
  \<^verbatim>\<open>src/\<close> (only \<^verbatim>\<open>power_hal.h\<close> declares them): ``a Latency-QoS sink and a
  CPU-bandwidth-hysteresis sink that receive secondary hints alongside the frequency
  floor'', and the supplementary boost policy group. Each sink keeps the last value it
  was given: the three CPUBW hysteresis values, and whether the schedtune boost of
  \<^verbatim>\<open>"top-app"\<close> is disabled. \<^verbatim>\<open>pm_qos_update_request\<close> stores the value of the request.
\<close>

record hints =
  hyst_trigger_count :: int
  hist_memory :: int
  hyst_length :: int
  top_app_boost_disabled :: bool

definition set_hyst_trigger_count_val :: "int \<Rightarrow> hints \<Rightarrow> hints" where
  "set_hyst_trigger_count_val val h = h\<lparr>hyst_trigger_count := val\<rparr>"

definition set_hist_memory_val :: "int \<Rightarrow> hints \<Rightarrow> hints" where
  "set_hist_memory_val val h = h\<lparr>hist_memory := val\<rparr>"

definition set_hyst_length_val :: "int \<Rightarrow> hints \<Rightarrow> hints" where
  "set_hyst_length_val val h = h\<lparr>hyst_length := val\<rparr>"

definition disable_schedtune_boost :: "bool \<Rightarrow> hints \<Rightarrow> hints" where
  "disable_schedtune_boost disable h = h\<lparr>top_app_boost_disabled := disable\<rparr>"

definition pm_qos_update_request :: "int \<Rightarrow> boost_drv \<Rightarrow> boost_drv" where
  "pm_qos_update_request new_value b = b\<lparr>pm_qos_req := new_value\<rparr>"

text \<open>The two blocks the source marks \<^verbatim>\<open>CPUBW boost\<close> and \<^verbatim>\<open>CPUBW unboost\<close>.\<close>

definition cpubw_boost :: "hints \<Rightarrow> hints" where
  "cpubw_boost h =
     set_hyst_length_val 0 (set_hist_memory_val 0 (set_hyst_trigger_count_val 0 h))"

definition cpubw_unboost :: "hints \<Rightarrow> hints" where
  "cpubw_unboost h =
     set_hyst_length_val 10 (set_hist_memory_val 20 (set_hyst_trigger_count_val 3 h))"

text \<open>
  The assignment \<^verbatim>\<open>policy->min = ...\<close> of a value that may come from the uninitialised
  local: the fault goes where the value goes, into the policy.
\<close>

definition store_min :: "cpufreq_policy \<Rightarrow> fault + uint \<Rightarrow> fault + cpufreq_policy" where
  "store_min policy v = (case v of Inl e \<Rightarrow> Inl e | Inr f \<Rightarrow> Inr (policy\<lparr>policy_min := f\<rparr>))"

text \<open>
  \<^verbatim>\<open>cpu_notifier_cb\<close> of the richer variant. The C function returns \<^verbatim>\<open>NOTIFY_OK\<close> on
  every path; the model returns what the call leaves behind: the policy, the driver
  state and the hints.
\<close>

definition cpu_notifier_cb ::
    "kernel \<Rightarrow> params \<Rightarrow> ulong \<Rightarrow> cpufreq_policy \<Rightarrow> boost_drv \<Rightarrow> hints \<Rightarrow>
     (fault + cpufreq_policy) \<times> boost_drv \<times> hints" where
  "cpu_notifier_cb k p action policy b h =
     (if action \<noteq> CPUFREQ_ADJUST k then (Inr policy, b, h)
      else if test_bit SCREEN_OFF (state b) then
        (store_min policy (get_idle_freq k p policy), b,
         cpubw_unboost (disable_schedtune_boost True h))
      else
        let b1 = (if test_bit POWERHAL_MAX_BOOST (state b)
                  then pm_qos_update_request 43 b
                  else pm_qos_update_request (PM_QOS_CPU_DMA_LAT_DEFAULT_VALUE k) b);
            h1 = (if test_bit POWERHAL_MAX_BOOST (state b) then cpubw_boost h else h);
            h2 = (if test_bit POWERHAL_BOOST (state b1) then cpubw_boost h1
                  else cpubw_unboost h1)
        in (store_min policy (get_min_freq k p policy), b1, h2))"

text \<open>The basic variant: \<^verbatim>\<open>struct boost_drv\<close> has the wait queue and the state only.\<close>

record boost_drv_basic =
  boost_waitq_basic :: nat
  state_basic :: ulong

definition wake_up_basic :: "boost_drv_basic \<Rightarrow> boost_drv_basic" where
  "wake_up_basic b = b\<lparr>boost_waitq_basic := Suc (boost_waitq_basic b)\<rparr>"

definition cpu_notifier_cb_basic ::
    "kernel \<Rightarrow> params \<Rightarrow> ulong \<Rightarrow> cpufreq_policy \<Rightarrow> boost_drv_basic \<Rightarrow>
     fault + cpufreq_policy" where
  "cpu_notifier_cb_basic k p action policy b =
     (if action \<noteq> CPUFREQ_ADJUST k then Inr policy
      else if test_bit SCREEN_OFF (state_basic b) then store_min policy (get_idle_freq k p policy)
      else store_min policy (get_min_freq k p policy))"

subsection \<open>Display and input adapters\<close>

text \<open>\<^verbatim>\<open>fb_notifier_cb\<close>: \<open>blank\<close> is \<^verbatim>\<open>*(int *)((struct fb_event *)data)->data\<close>.\<close>

definition fb_notifier_cb ::
    "kernel \<Rightarrow> ulong \<Rightarrow> int \<Rightarrow> boost_drv \<Rightarrow> hints \<Rightarrow> boost_drv \<times> hints" where
  "fb_notifier_cb k action blank b h =
     (if action \<noteq> FB_EARLY_EVENT_BLANK k then (b, h)
      else if blank = FB_BLANK_UNBLANK k
        then (b\<lparr>state := clear_bit SCREEN_OFF (state b)\<rparr>, disable_schedtune_boost False h)
        else (wake_up (b\<lparr>state := set_bit_ul SCREEN_OFF (state b)\<rparr>), h))"

definition fb_notifier_cb_basic ::
    "kernel \<Rightarrow> ulong \<Rightarrow> int \<Rightarrow> boost_drv_basic \<Rightarrow> boost_drv_basic" where
  "fb_notifier_cb_basic k action blank b =
     (if action \<noteq> FB_EARLY_EVENT_BLANK k then b
      else if blank = FB_BLANK_UNBLANK k
        then b\<lparr>state_basic := clear_bit SCREEN_OFF (state_basic b)\<rparr>
        else wake_up_basic (b\<lparr>state_basic := set_bit_ul SCREEN_OFF (state_basic b)\<rparr>))"

text \<open>
  \<^verbatim>\<open>cpu_input_boost_input_event\<close>: the driver is \<^verbatim>\<open>handle->handler->private\<close>. In the
  richer variant the body is the call of \<^verbatim>\<open>__powerhal_boost_kick\<close>; in the basic variant
  the body is empty after the declaration of \<^verbatim>\<open>b\<close>.
\<close>

definition cpu_input_boost_input_event ::
    "kernel \<Rightarrow> params \<Rightarrow> ulong \<Rightarrow> uint \<Rightarrow> uint \<Rightarrow> int \<Rightarrow> boost_drv \<Rightarrow> boost_drv" where
  "cpu_input_boost_input_event k p jiffies type code val b = u_powerhal_boost_kick k p jiffies b"

definition cpu_input_boost_input_event_basic ::
    "uint \<Rightarrow> uint \<Rightarrow> int \<Rightarrow> boost_drv_basic \<Rightarrow> boost_drv_basic" where
  "cpu_input_boost_input_event_basic type code val b = b"

text \<open>The fields the two variants of \<^verbatim>\<open>struct boost_drv\<close> share.\<close>

definition shared_fields :: "boost_drv \<Rightarrow> boost_drv_basic" where
  "shared_fields b = \<lparr>boost_waitq_basic = boost_waitq b, state_basic = state b\<rparr>"

subsection \<open>The coordinator thread\<close>

text \<open>
  \<^verbatim>\<open>cpu_boost_thread\<close> (the same text in both variants). \<^verbatim>\<open>wait_event\<close> evaluates its
  condition on entry and again after every wake-up. The argument \<open>obs\<close> lists what the
  successive evaluations of the condition find: the value \<^verbatim>\<open>READ_ONCE(b->state)\<close> gives,
  and the value \<^verbatim>\<open>kthread_should_stop()\<close> gives if it is called. The condition is
  \<^verbatim>\<open>(curr_state = READ_ONCE(b->state)) != old_state || (should_stop = kthread_should_stop())\<close>:
  the right operand of \<^verbatim>\<open>||\<close> is evaluated only when the left one is false, so
  \<^verbatim>\<open>should_stop\<close> keeps its initial \<^verbatim>\<open>false\<close> when the state differs.

  The result lists the calls of \<^verbatim>\<open>update_online_cpu_policy()\<close>, each with the state it
  was issued for, and says whether the thread returned or still sleeps in
  \<^verbatim>\<open>wait_event\<close> when the observations end.
\<close>

datatype thread_status = Returned | Sleeping

fun cpu_boost_thread_loop :: "ulong \<Rightarrow> (ulong \<times> bool) list \<Rightarrow> ulong list \<times> thread_status" where
  "cpu_boost_thread_loop old_state [] = ([], Sleeping)"
| "cpu_boost_thread_loop old_state ((curr_state, stop) # obs) =
     (if curr_state \<noteq> old_state
      then (let should_stop = False
            in if should_stop then ([], Returned)
               else (let r = cpu_boost_thread_loop curr_state obs
                     in (curr_state # fst r, snd r)))
      else (let should_stop = stop
            in if should_stop then ([], Returned)
               else cpu_boost_thread_loop old_state obs))"

definition cpu_boost_thread :: "(ulong \<times> bool) list \<Rightarrow> ulong list \<times> thread_status" where
  "cpu_boost_thread obs = cpu_boost_thread_loop 0 obs"

subsection \<open>Initialisation\<close>

text \<open>
  \<^verbatim>\<open>cpu_input_boost_init\<close>. The outcomes of the calls into the kernel are inputs: the
  return values of the three registrations, and the error of \<^verbatim>\<open>kthread_run_perf_critical\<close>
  (\<open>None\<close> when the thread started, \<open>Some e\<close> for \<^verbatim>\<open>ERR_PTR(e)\<close>). The result is the
  return value and the calls that took effect, in the order made: the registrations that
  succeeded and the calls that undo one.
\<close>

record init_outcomes =
  cpufreq_register_notifier_ret :: int
  input_register_handler_ret :: int
  fb_register_client_ret :: int
  kthread_run_err :: "int option"

datatype resource = Pm_qos_request | Cpufreq_notifier | Input_handler | Fb_client | Boost_thread

datatype init_call = Register resource | Unregister resource

text \<open>The labels at the end of the richer variant's function.\<close>

definition unregister_cpu_notif :: "init_call list \<Rightarrow> init_call list" where
  "unregister_cpu_notif calls = calls @ [Unregister Cpufreq_notifier, Unregister Pm_qos_request]"

definition unregister_handler :: "init_call list \<Rightarrow> init_call list" where
  "unregister_handler calls = unregister_cpu_notif (calls @ [Unregister Input_handler])"

definition unregister_fb_notif :: "init_call list \<Rightarrow> init_call list" where
  "unregister_fb_notif calls = unregister_handler (calls @ [Unregister Fb_client])"

definition cpu_input_boost_init :: "init_outcomes \<Rightarrow> int \<times> init_call list" where
  "cpu_input_boost_init e =
     (let calls0 = [Register Pm_qos_request];
          ret = cpufreq_register_notifier_ret e
      in if ret \<noteq> 0 then (ret, calls0)
         else
           let calls1 = calls0 @ [Register Cpufreq_notifier];
               ret = input_register_handler_ret e
           in if ret \<noteq> 0 then (ret, unregister_cpu_notif calls1)
              else
                let calls2 = calls1 @ [Register Input_handler];
                    ret = fb_register_client_ret e
                in if ret \<noteq> 0 then (ret, unregister_handler calls2)
                   else
                     let calls3 = calls2 @ [Register Fb_client]
                     in case kthread_run_err e of
                          Some err \<Rightarrow> (err, unregister_fb_notif calls3)
                        | None \<Rightarrow> (0, calls3 @ [Register Boost_thread]))"

text \<open>The labels of the basic variant: no latency request there.\<close>

definition unregister_cpu_notif_basic :: "init_call list \<Rightarrow> init_call list" where
  "unregister_cpu_notif_basic calls = calls @ [Unregister Cpufreq_notifier]"

definition unregister_handler_basic :: "init_call list \<Rightarrow> init_call list" where
  "unregister_handler_basic calls = unregister_cpu_notif_basic (calls @ [Unregister Input_handler])"

definition unregister_fb_notif_basic :: "init_call list \<Rightarrow> init_call list" where
  "unregister_fb_notif_basic calls = unregister_handler_basic (calls @ [Unregister Fb_client])"

definition cpu_input_boost_init_basic :: "init_outcomes \<Rightarrow> int \<times> init_call list" where
  "cpu_input_boost_init_basic e =
     (let calls0 = [];
          ret = cpufreq_register_notifier_ret e
      in if ret \<noteq> 0 then (ret, calls0)
         else
           let calls1 = calls0 @ [Register Cpufreq_notifier];
               ret = input_register_handler_ret e
           in if ret \<noteq> 0 then (ret, unregister_cpu_notif_basic calls1)
              else
                let calls2 = calls1 @ [Register Input_handler];
                    ret = fb_register_client_ret e
                in if ret \<noteq> 0 then (ret, unregister_handler_basic calls2)
                   else
                     let calls3 = calls2 @ [Register Fb_client]
                     in case kthread_run_err e of
                          Some err \<Rightarrow> (err, unregister_fb_notif_basic calls3)
                        | None \<Rightarrow> (0, calls3 @ [Register Boost_thread]))"

text \<open>The resources still registered after a sequence of calls, the latest first.\<close>

fun in_effect :: "init_call list \<Rightarrow> resource list \<Rightarrow> resource list" where
  "in_effect [] acc = acc"
| "in_effect (Register r # calls) acc = in_effect calls (r # acc)"
| "in_effect (Unregister r # calls) acc = in_effect calls (remove1 r acc)"

text \<open>The registrations and the undoing calls of a sequence of calls, each in the order made.\<close>

fun registered :: "init_call list \<Rightarrow> resource list" where
  "registered [] = []"
| "registered (Register r # calls) = r # registered calls"
| "registered (Unregister r # calls) = registered calls"

fun unregistered :: "init_call list \<Rightarrow> resource list" where
  "unregistered [] = []"
| "unregistered (Register r # calls) = unregistered calls"
| "unregistered (Unregister r # calls) = r # unregistered calls"

subsection \<open>A concrete configuration\<close>

text \<open>
  The configuration of the examples: \<open>HZ = 1000\<close>, so that \<^verbatim>\<open>msecs_to_jiffies\<close> maps a
  duration to the same number of jiffies (and a duration with the sign bit set to
  \<^verbatim>\<open>MAX_JIFFY_OFFSET\<close>); CPUs 0 to 3 form the low-power cluster; the constants have the
  values of the kernel headers.
\<close>

definition MAX_JIFFY_OFFSET :: ulong where
  "MAX_JIFFY_OFFSET = drop_bit 1 (mask 63) - 1"

definition hz1000 :: kernel where
  "hz1000 = \<lparr>msecs_to_jiffies = (\<lambda>m. if sint m < 0 then MAX_JIFFY_OFFSET else ucast m),
     cpu_lp_mask = {0, 1, 2, 3},
     CPUFREQ_ADJUST = 0,
     FB_EARLY_EVENT_BLANK = 16,
     FB_BLANK_UNBLANK = 0,
     PM_QOS_CPU_DMA_LAT_DEFAULT_VALUE = 2000000000\<rparr>"

text \<open>Scenario A of the spec: 500 ms, base-boost floor 768 MHz; the idle floor is 300 MHz.\<close>

definition scenario_params :: params where
  "scenario_params = \<lparr>idle_min_freq_lp = 300000, boost_min_freq_lp = 768000,
     powerhal_boost_duration = 500\<rparr>"

definition lp_policy :: cpufreq_policy where
  "lp_policy = \<lparr>cpu = 0, cpuinfo_min_freq = 300000, policy_min = 300000\<rparr>"

definition perf_policy :: cpufreq_policy where
  "perf_policy = \<lparr>cpu = 4, cpuinfo_min_freq = 1113600, policy_min = 1113600\<rparr>"

definition no_hints :: hints where
  "no_hints = \<lparr>hyst_trigger_count = 0, hist_memory = 0, hyst_length = 0,
     top_app_boost_disabled = False\<rparr>"

subsection \<open>Auxiliary notions of the proofs and the inputs of the examples\<close>



text \<open>The floor a run of the bridge leaves in \<^verbatim>\<open>policy->min\<close>.\<close>

definition floor_of :: "(fault + cpufreq_policy) \<times> boost_drv \<times> hints \<Rightarrow> fault + uint" where
  "floor_of r = (case fst r of Inl e \<Rightarrow> Inl e | Inr x \<Rightarrow> Inr (policy_min x))"

definition floor_of_basic :: "fault + cpufreq_policy \<Rightarrow> fault + uint" where
  "floor_of_basic r = (case r of Inl e \<Rightarrow> Inl e | Inr x \<Rightarrow> Inr (policy_min x))"



definition race_end :: "(nat \<times> ulong) list" where
  "race_end = [(0, 0), (0, 0), (0, 0), (0, 0), (0, 0), (1, 0), (1, 0)]"


text \<open>The screen is off while both boosts are still set and their works pending.\<close>

definition screen_off_boosted :: boost_drv where
  "screen_off_boosted = \<lparr>powerhal_unboost = Some 400, powerhal_max_unboost = Some 900,
     boost_waitq = 2, powerhal_max_boost_expires = 900, state = 7, pm_qos_req = 43\<rparr>"

text \<open>
  An idle floor of 633.6 MHz, between the minimum of the cluster and the base-boost
  floor, and a low-power policy that holds the base-boost floor from the last recompute.
\<close>

definition idle_params :: params where
  "idle_params = \<lparr>idle_min_freq_lp = 633600, boost_min_freq_lp = 768000,
     powerhal_boost_duration = 500\<rparr>"

definition lp_policy_boosted :: cpufreq_policy where
  "lp_policy_boosted = \<lparr>cpu = 0, cpuinfo_min_freq = 300000, policy_min = 768000\<rparr>"

text \<open>An input boost is set and its work pending until jiffies 400.\<close>

definition pending_boost :: boost_drv where
  "pending_boost = \<lparr>powerhal_unboost = Some 400, powerhal_max_unboost = None, boost_waitq = 1,
     powerhal_max_boost_expires = 0, state = 2, pm_qos_req = 0\<rparr>"


text \<open>The screen is off while a max-boost is active and the latency request is at 43.\<close>

definition screen_off_max_boost :: boost_drv where
  "screen_off_max_boost = \<lparr>powerhal_unboost = None, powerhal_max_unboost = Some 900,
     boost_waitq = 2, powerhal_max_boost_expires = 900, state = 5, pm_qos_req = 43\<rparr>"

text \<open>\<^verbatim>\<open>cpufreq_register_notifier\<close> fails with \<^verbatim>\<open>-EINVAL\<close>; nothing else would fail.\<close>

definition cpufreq_fails :: init_outcomes where
  "cpufreq_fails = \<lparr>cpufreq_register_notifier_ret = - 22, input_register_handler_ret = 0,
     fb_register_client_ret = 0, kthread_run_err = None\<rparr>"

section \<open>Facts about the model\<close>

subsection \<open>The compare-and-swap loop run alone\<close>

lemma kick_max_cas_eq:
  "kick_max_cas jiffies bj e = (if time_after e (jiffies + bj) then None else Some (jiffies + bj))"
  by (simp add: atomic_long_cmpxchg_def Let_def)



lemma kick_max_steps_alone:
  "kick_max_step k jiffies d KM_test_screen_off b = (pc1, b1) \<Longrightarrow>
   kick_max_step k jiffies d pc1 b1 = (pc2, b2) \<Longrightarrow>
   kick_max_step k jiffies d pc2 b2 = (pc3, b3) \<Longrightarrow>
   kick_max_step k jiffies d pc3 b3 = (pc4, b4) \<Longrightarrow>
   kick_max_step k jiffies d pc4 b4 = (pc5, b5) \<Longrightarrow>
   pc5 = KM_return \<and> b5 = powerhal_boost_kick_max k jiffies d b"
  by (auto simp add: powerhal_boost_kick_max_def u_powerhal_boost_kick_max_def kick_max_cas_eq
      atomic_long_cmpxchg_def Let_def simp del: kick_max_cas.simps split: if_splits)

subsection \<open>Jiffies in the lower half of the range\<close>







subsection \<open>The deadline under interleaved callers\<close>










lemma race_end_run:
  "run_schedule hz1000 race_end
      ([(1000, KM_cmpxchg 0 1000), (200, KM_set_bit)], boost_drv_g\<lparr>powerhal_max_boost_expires := 200\<rparr>) =
     ([(1000, KM_return), (200, KM_return)],
      \<lparr>powerhal_unboost = None, powerhal_max_unboost = Some 200, boost_waitq = 1,
        powerhal_max_boost_expires = 1000, state = 4, pm_qos_req = 0\<rparr>)"
  by (simp add: race_end_def sched_step_def boost_drv_g_def hz1000_def Let_def
      test_bit_def SCREEN_OFF_def time_after_def atomic_long_cmpxchg_def mod_delayed_work_def wake_up_def
      set_bit_ul_def POWERHAL_MAX_BOOST_def)

subsection \<open>Scenario B\<close>

lemma msecs_hz1000 [simp]:
  "msecs_to_jiffies hz1000 1000 = 1000" "msecs_to_jiffies hz1000 200 = 200"
  by (simp_all add: hz1000_def)



subsection \<open>The bridge and the boost of scenario A\<close>

lemma hz1000_consts:
  "CPUFREQ_ADJUST hz1000 = 0" "FB_EARLY_EVENT_BLANK hz1000 = 16" "FB_BLANK_UNBLANK hz1000 = 0"
  "PM_QOS_CPU_DMA_LAT_DEFAULT_VALUE hz1000 = 2000000000" "cpu_lp_mask hz1000 = {0, 1, 2, 3}"
  by (simp_all add: hz1000_def)

lemma lp_floor_hz1000:
  "get_min_freq hz1000 scenario_params lp_policy = Inr 768000"
  "get_idle_freq hz1000 scenario_params lp_policy = Inr 300000"
  by (simp_all add: get_min_freq_def get_idle_freq_def hz1000_def scenario_params_def lp_policy_def
      cpumask_test_cpu_def)

lemma lp_policy_in_mask:
  "cpumask_test_cpu (cpu lp_policy) (cpu_lp_mask hz1000)"
  by (simp add: cpumask_test_cpu_def lp_policy_def hz1000_consts)

lemma scenario_floor:
  "max (boost_min_freq_lp scenario_params) (cpuinfo_min_freq lp_policy) = 768000"
  by (simp add: scenario_params_def lp_policy_def)

lemma screen_on_floor:
  assumes "action = CPUFREQ_ADJUST k" and "\<not> test_bit SCREEN_OFF (state b)"
    and "cpumask_test_cpu (cpu policy) (cpu_lp_mask k)"
  shows "floor_of (cpu_notifier_cb k p action policy b h)
      = Inr (max (boost_min_freq_lp p) (cpuinfo_min_freq policy))"
  using assms by (simp add: floor_of_def cpu_notifier_cb_def get_min_freq_def store_min_def Let_def)

lemma screen_on_floor_basic:
  assumes "action = CPUFREQ_ADJUST k" and "\<not> test_bit SCREEN_OFF (state_basic bb)"
    and "cpumask_test_cpu (cpu policy) (cpu_lp_mask k)"
  shows "floor_of_basic (cpu_notifier_cb_basic k p action policy bb)
      = Inr (max (boost_min_freq_lp p) (cpuinfo_min_freq policy))"
  using assms by (simp add: floor_of_basic_def cpu_notifier_cb_basic_def get_min_freq_def store_min_def)

lemma state_kick_500:
  "powerhal_boost_kick hz1000 scenario_params J boost_drv_g =
     \<lparr>powerhal_unboost = Some (J + 500), powerhal_max_unboost = None, boost_waitq = 1,
       powerhal_max_boost_expires = 0, state = 2, pm_qos_req = 0\<rparr>"
  by (simp add: powerhal_boost_kick_def u_powerhal_boost_kick_def boost_drv_g_def test_bit_def
      SCREEN_OFF_def scenario_params_def mod_delayed_work_def wake_up_def set_bit_ul_def
      POWERHAL_BOOST_def hz1000_def Let_def)

lemma state_kick_500_expired:
  "run_delayed_work (J + 500) (powerhal_boost_kick hz1000 scenario_params J boost_drv_g) =
     \<lparr>powerhal_unboost = None, powerhal_max_unboost = None, boost_waitq = 2,
       powerhal_max_boost_expires = 0, state = 0, pm_qos_req = 0\<rparr>"
  by (simp add: state_kick_500 run_delayed_work_def time_after_eq_def powerhal_unboost_worker_def
      wake_up_def clear_bit_def POWERHAL_BOOST_def)

lemma bridge_screen_off_branch:
  "(action = CPUFREQ_ADJUST k \<and> test_bit SCREEN_OFF (state b) \<longrightarrow>
      cpu_notifier_cb k p action policy b h =
        (store_min policy (get_idle_freq k p policy), b,
         cpubw_unboost (disable_schedtune_boost True h)))
   \<and> (action = CPUFREQ_ADJUST k \<and> test_bit SCREEN_OFF (state_basic bb) \<longrightarrow>
      cpu_notifier_cb_basic k p action policy bb = store_min policy (get_idle_freq k p policy))
   \<and> (cpumask_test_cpu (cpu policy) (cpu_lp_mask k) \<longrightarrow>
      store_min policy (get_idle_freq k p policy) =
        Inr (policy\<lparr>policy_min := max (idle_min_freq_lp p) (cpuinfo_min_freq policy)\<rparr>))"
  by (simp add: cpu_notifier_cb_def cpu_notifier_cb_basic_def get_idle_freq_def store_min_def)

lemma bridge_pm_qos:
  "pm_qos_req (fst (snd (cpu_notifier_cb k p action policy b h))) =
     (if action = CPUFREQ_ADJUST k \<and> \<not> test_bit SCREEN_OFF (state b)
      then (if test_bit POWERHAL_MAX_BOOST (state b) then 43
            else PM_QOS_CPU_DMA_LAT_DEFAULT_VALUE k)
      else pm_qos_req b)"
  by (simp add: cpu_notifier_cb_def pm_qos_update_request_def Let_def)

subsection \<open>Display events, the local \<open>freq\<close>, and the unwinding of init\<close>

lemma fb_unblank_never_wakes:
  "boost_waitq (fst (fb_notifier_cb k action (FB_BLANK_UNBLANK k) b h)) = boost_waitq b
   \<and> boost_waitq_basic (fb_notifier_cb_basic k action (FB_BLANK_UNBLANK k) bb) = boost_waitq_basic bb"
  by (simp add: fb_notifier_cb_def fb_notifier_cb_basic_def)

lemma freq_unassigned_outside_lp_mask:
  "\<not> cpumask_test_cpu (cpu policy) (cpu_lp_mask k) \<Longrightarrow>
     get_min_freq k p policy = Inl Uninitialized_read \<and> get_idle_freq k p policy = Inl Uninitialized_read"
  by (simp add: get_min_freq_def get_idle_freq_def)

lemma init_later_failures_unwind:
  "cpufreq_register_notifier_ret e = 0 \<Longrightarrow> fst (cpu_input_boost_init e) \<noteq> 0 \<Longrightarrow>
     in_effect (snd (cpu_input_boost_init e)) [] = []"
  by (simp add: cpu_input_boost_init_def unregister_cpu_notif_def unregister_handler_def
      unregister_fb_notif_def Let_def split: if_splits option.splits)

lemma init_later_failures_reverse_order:
  "cpufreq_register_notifier_ret e = 0 \<Longrightarrow> fst (cpu_input_boost_init e) \<noteq> 0 \<Longrightarrow>
     unregistered (snd (cpu_input_boost_init e)) = rev (registered (snd (cpu_input_boost_init e)))"
  by (simp add: cpu_input_boost_init_def unregister_cpu_notif_def unregister_handler_def
      unregister_fb_notif_def Let_def split: if_splits option.splits)

lemma init_basic_failures_reverse_order:
  "fst (cpu_input_boost_init_basic e) \<noteq> 0 \<Longrightarrow>
     unregistered (snd (cpu_input_boost_init_basic e)) = rev (registered (snd (cpu_input_boost_init_basic e)))"
  by (simp add: cpu_input_boost_init_basic_def unregister_cpu_notif_basic_def unregister_handler_basic_def
      unregister_fb_notif_basic_def Let_def split: if_splits option.splits)

lemma init_basic_failures_unwind:
  "fst (cpu_input_boost_init_basic e) \<noteq> 0 \<Longrightarrow>
     in_effect (snd (cpu_input_boost_init_basic e)) [] = []"
  by (simp add: cpu_input_boost_init_basic_def unregister_cpu_notif_basic_def unregister_handler_basic_def
      unregister_fb_notif_basic_def Let_def split: if_splits option.splits)

section \<open>The claims\<close>

subsection \<open>C1: kick_max only extends the deadline\<close>



subsection \<open>C2: the floor while the screen is off\<close>

text \<open>
  C2, at the failing input. A \<^verbatim>\<open>CPUFREQ_ADJUST\<close> call of the bridge with the screen-off
  bit set (and the boost and max-boost bits set, their works pending) for a policy whose
  CPU (here CPU 4) is not in the low-power mask: the screen-off branch is taken and the
  driver state is left as it was, but the floor it stores is not the idle floor: it comes
  from the read of the local \<^verbatim>\<open>freq\<close> of \<open>get_idle_freq\<close> that was never assigned, in
  both variants. For a policy of the low-power mask the same call stores the maximum of
  \<open>idle_min_freq_lp\<close> and the minimum of the cluster (here 633.6 MHz, where the policy
  held 768 MHz and the minimum is 300 MHz).
\<close>

theorem screen_off_floor_undefined_on_perf_cluster:
  "test_bit SCREEN_OFF (state screen_off_boosted)
   \<and> test_bit POWERHAL_BOOST (state screen_off_boosted)
   \<and> test_bit POWERHAL_MAX_BOOST (state screen_off_boosted)
   \<and> \<not> cpumask_test_cpu (cpu perf_policy) (cpu_lp_mask hz1000)
   \<and> cpu_notifier_cb hz1000 idle_params 0 perf_policy screen_off_boosted no_hints =
        (Inl Uninitialized_read, screen_off_boosted,
         \<lparr>hyst_trigger_count = 3, hist_memory = 20, hyst_length = 10, top_app_boost_disabled = True\<rparr>)
   \<and> cpu_notifier_cb_basic hz1000 idle_params 0 perf_policy \<lparr>boost_waitq_basic = 0, state_basic = 1\<rparr> =
        Inl Uninitialized_read
   \<and> cpu_notifier_cb hz1000 idle_params 0 lp_policy_boosted screen_off_boosted no_hints =
        (Inr (lp_policy_boosted\<lparr>policy_min := 633600\<rparr>), screen_off_boosted,
         \<lparr>hyst_trigger_count = 3, hist_memory = 20, hyst_length = 10, top_app_boost_disabled = True\<rparr>)
   \<and> cpu_notifier_cb_basic hz1000 idle_params 0 lp_policy_boosted \<lparr>boost_waitq_basic = 0, state_basic = 1\<rparr> =
        Inr (lp_policy_boosted\<lparr>policy_min := 633600\<rparr>)
   \<and> lp_policy_boosted\<lparr>policy_min := 633600\<rparr> \<noteq> lp_policy_boosted"
  by (simp add: cpu_notifier_cb_def cpu_notifier_cb_basic_def get_idle_freq_def store_min_def
      hz1000_def screen_off_boosted_def test_bit_def SCREEN_OFF_def POWERHAL_BOOST_def
      POWERHAL_MAX_BOOST_def cpumask_test_cpu_def perf_policy_def lp_policy_boosted_def idle_params_def
      no_hints_def cpubw_unboost_def disable_schedtune_boost_def set_hyst_length_val_def
      set_hist_memory_val_def set_hyst_trigger_count_val_def)

subsection \<open>C3: input events\<close>

text \<open>
  C3 as stated fails in the basic variant: there the handler leaves the driver as it
  is, while a kick on the same state sets the boost bit and wakes the coordinator.
\<close>

theorem input_event_basic_does_not_kick:
  "cpu_input_boost_input_event_basic 3 57 1 (shared_fields boost_drv_g) = \<lparr>boost_waitq_basic = 0, state_basic = 0\<rparr>
   \<and> shared_fields (powerhal_boost_kick hz1000 scenario_params 0 boost_drv_g) = \<lparr>boost_waitq_basic = 1, state_basic = 2\<rparr>"
  by (simp add: cpu_input_boost_input_event_basic_def shared_fields_def boost_drv_g_def powerhal_boost_kick_def
      u_powerhal_boost_kick_def test_bit_def SCREEN_OFF_def scenario_params_def mod_delayed_work_def wake_up_def
      set_bit_ul_def POWERHAL_BOOST_def Let_def)

text \<open>
  C3, amended. In the richer variant every event of a matched device, whatever its type,
  code and value, has the effect of the external entry point \<open>powerhal_boost_kick\<close>;
  in the basic variant, which has no kick, the handler changes nothing.
\<close>

theorem input_event_kicks_in_richer_variant:
  "cpu_input_boost_input_event k p jiffies type code val b = powerhal_boost_kick k p jiffies b
   \<and> cpu_input_boost_input_event_basic type code val bb = bb"
  by (simp add: cpu_input_boost_input_event_def powerhal_boost_kick_def cpu_input_boost_input_event_basic_def)

subsection \<open>C4: kick\<close>

text \<open>
  C4 as stated fails when the boost work is already pending: the work is rescheduled
  and no \<^verbatim>\<open>wake_up\<close> is made.
\<close>

theorem kick_on_pending_timer_does_not_wake:
  "\<not> test_bit SCREEN_OFF (state pending_boost) \<and> powerhal_boost_duration scenario_params \<noteq> 0
   \<and> powerhal_boost_kick hz1000 scenario_params 100 pending_boost = pending_boost\<lparr>powerhal_unboost := Some 600\<rparr>
   \<and> boost_waitq (powerhal_boost_kick hz1000 scenario_params 100 pending_boost) = boost_waitq pending_boost"
  by (simp add: pending_boost_def powerhal_boost_kick_def
      u_powerhal_boost_kick_def test_bit_def SCREEN_OFF_def scenario_params_def mod_delayed_work_def wake_up_def
      set_bit_ul_def POWERHAL_BOOST_def Let_def hz1000_def)

text \<open>
  C4, amended. A kick changes nothing when the screen-off bit is set or the boost
  duration is 0. Otherwise it sets the boost bit and rearms the one boost work to run
  the configured duration after the call, replacing a pending expiry; it wakes the
  coordinator exactly when the work was idle before the call.
\<close>

theorem kick_wakes_when_timer_idle:
  "powerhal_boost_kick k p jiffies b =
     (if test_bit SCREEN_OFF (state b) \<or> powerhal_boost_duration p = 0 then b
      else b\<lparr>state := set_bit_ul POWERHAL_BOOST (state b),
             powerhal_unboost := Some (jiffies + msecs_to_jiffies k (ucast (powerhal_boost_duration p))),
             boost_waitq := (if powerhal_unboost b = None then Suc (boost_waitq b) else boost_waitq b)\<rparr>)"
  by (simp add: powerhal_boost_kick_def u_powerhal_boost_kick_def mod_delayed_work_def wake_up_def Let_def)

theorem kick_wakes_when_timer_idle_witness:
  "powerhal_boost_kick hz1000 scenario_params 0 boost_drv_g =
     boost_drv_g\<lparr>state := 2, powerhal_unboost := Some 500, boost_waitq := 1\<rparr>
   \<and> powerhal_boost_kick hz1000 scenario_params 100 (boost_drv_g\<lparr>state := 1\<rparr>) = boost_drv_g\<lparr>state := 1\<rparr>"
  using kick_wakes_when_timer_idle [of hz1000 scenario_params 0 boost_drv_g]
    kick_wakes_when_timer_idle [of hz1000 scenario_params 100 "boost_drv_g\<lparr>state := 1\<rparr>"]
  by (simp add: boost_drv_g_def test_bit_def SCREEN_OFF_def scenario_params_def set_bit_ul_def POWERHAL_BOOST_def hz1000_def)

subsection \<open>C5: the floor while the screen is on\<close>

text \<open>
  C5 as stated fails: in scenario A (500 ms, base-boost floor 768 MHz, cluster minimum
  300 MHz) the boost work runs 500 ms after the kick and clears the boost bit, no bit
  is set any more, and the bridge still returns 768 MHz, not the cluster minimum.
\<close>

theorem floor_after_boost_is_not_cluster_minimum:
  "state (run_delayed_work 500 (powerhal_boost_kick hz1000 scenario_params 0 boost_drv_g)) = 0
   \<and> floor_of (cpu_notifier_cb hz1000 scenario_params 0 lp_policy
        (run_delayed_work 500 (powerhal_boost_kick hz1000 scenario_params 0 boost_drv_g)) no_hints) = Inr 768000
   \<and> cpuinfo_min_freq lp_policy = 300000"
proof -
  have e: "run_delayed_work 500 (powerhal_boost_kick hz1000 scenario_params 0 boost_drv_g) =
     \<lparr>powerhal_unboost = None, powerhal_max_unboost = None, boost_waitq = 2,
       powerhal_max_boost_expires = 0, state = 0, pm_qos_req = 0\<rparr>"
    using state_kick_500_expired [of 0] by simp
  have "floor_of (cpu_notifier_cb hz1000 scenario_params 0 lp_policy
        (run_delayed_work 500 (powerhal_boost_kick hz1000 scenario_params 0 boost_drv_g)) no_hints)
      = Inr (max (boost_min_freq_lp scenario_params) (cpuinfo_min_freq lp_policy))"
    unfolding e by (rule screen_on_floor) (simp_all add: hz1000_consts(1) lp_policy_in_mask test_bit_def)
  then show ?thesis by (simp add: e scenario_floor) (simp add: lp_policy_def)
qed

text \<open>
  C5, amended. When the screen-off bit is clear, the floor the bridge returns on a
  \<^verbatim>\<open>CPUFREQ_ADJUST\<close> call for a policy of the low-power mask is the maximum of the
  base-boost floor and the minimum of the cluster, in both variants and whether or not
  the boost and max-boost bits are set. In scenario A the floor is 768 MHz after the
  kick and is still 768 MHz once the boost work has cleared the bit, 500 ms after the
  kick.
\<close>

theorem screen_on_floor_is_base_boost_floor:
  "(action = CPUFREQ_ADJUST k \<and> \<not> test_bit SCREEN_OFF (state b)
      \<and> cpumask_test_cpu (cpu policy) (cpu_lp_mask k) \<longrightarrow>
        floor_of (cpu_notifier_cb k p action policy b h)
          = Inr (max (boost_min_freq_lp p) (cpuinfo_min_freq policy)))
   \<and> (action = CPUFREQ_ADJUST k \<and> \<not> test_bit SCREEN_OFF (state_basic bb)
      \<and> cpumask_test_cpu (cpu policy) (cpu_lp_mask k) \<longrightarrow>
        floor_of_basic (cpu_notifier_cb_basic k p action policy bb)
          = Inr (max (boost_min_freq_lp p) (cpuinfo_min_freq policy)))
   \<and> floor_of (cpu_notifier_cb hz1000 scenario_params 0 lp_policy
        (powerhal_boost_kick hz1000 scenario_params J boost_drv_g) h) = Inr 768000
   \<and> floor_of (cpu_notifier_cb hz1000 scenario_params 0 lp_policy
        (run_delayed_work (J + 500) (powerhal_boost_kick hz1000 scenario_params J boost_drv_g)) h) = Inr 768000"
proof (intro conjI impI)
  assume "action = CPUFREQ_ADJUST k \<and> \<not> test_bit SCREEN_OFF (state b)
      \<and> cpumask_test_cpu (cpu policy) (cpu_lp_mask k)"
  then show "floor_of (cpu_notifier_cb k p action policy b h)
          = Inr (max (boost_min_freq_lp p) (cpuinfo_min_freq policy))"
    by (intro screen_on_floor) simp_all
next
  assume "action = CPUFREQ_ADJUST k \<and> \<not> test_bit SCREEN_OFF (state_basic bb)
      \<and> cpumask_test_cpu (cpu policy) (cpu_lp_mask k)"
  then show "floor_of_basic (cpu_notifier_cb_basic k p action policy bb)
          = Inr (max (boost_min_freq_lp p) (cpuinfo_min_freq policy))"
    by (intro screen_on_floor_basic) simp_all
next
  have "floor_of (cpu_notifier_cb hz1000 scenario_params 0 lp_policy
        (powerhal_boost_kick hz1000 scenario_params J boost_drv_g) h)
      = Inr (max (boost_min_freq_lp scenario_params) (cpuinfo_min_freq lp_policy))"
    unfolding state_kick_500
    by (rule screen_on_floor) (simp_all add: hz1000_consts(1) lp_policy_in_mask test_bit_def SCREEN_OFF_def)
  then show "floor_of (cpu_notifier_cb hz1000 scenario_params 0 lp_policy
        (powerhal_boost_kick hz1000 scenario_params J boost_drv_g) h) = Inr 768000"
    by (simp only: scenario_floor)
next
  have "floor_of (cpu_notifier_cb hz1000 scenario_params 0 lp_policy
        (run_delayed_work (J + 500) (powerhal_boost_kick hz1000 scenario_params J boost_drv_g)) h)
      = Inr (max (boost_min_freq_lp scenario_params) (cpuinfo_min_freq lp_policy))"
    unfolding state_kick_500_expired
    by (rule screen_on_floor) (simp_all add: hz1000_consts(1) lp_policy_in_mask test_bit_def SCREEN_OFF_def)
  then show "floor_of (cpu_notifier_cb hz1000 scenario_params 0 lp_policy
        (run_delayed_work (J + 500) (powerhal_boost_kick hz1000 scenario_params J boost_drv_g)) h) = Inr 768000"
    by (simp only: scenario_floor)
qed

theorem screen_on_floor_is_base_boost_floor_witness:
  "\<not> test_bit SCREEN_OFF (state pending_boost) \<and> test_bit POWERHAL_BOOST (state pending_boost)
   \<and> floor_of (cpu_notifier_cb hz1000 scenario_params 0 lp_policy pending_boost no_hints) = Inr 768000
   \<and> \<not> test_bit SCREEN_OFF (state boost_drv_g) \<and> \<not> test_bit POWERHAL_BOOST (state boost_drv_g)
   \<and> floor_of (cpu_notifier_cb hz1000 scenario_params 0 lp_policy boost_drv_g no_hints) = Inr 768000
   \<and> floor_of_basic (cpu_notifier_cb_basic hz1000 scenario_params 0 lp_policy
        \<lparr>boost_waitq_basic = 0, state_basic = 0\<rparr>) = Inr 768000"
proof -
  note a = screen_on_floor_is_base_boost_floor [where action = 0 and k = hz1000 and b = pending_boost and policy = lp_policy
      and p = scenario_params and h = no_hints and bb = "\<lparr>boost_waitq_basic = 0, state_basic = 0\<rparr>"
      and J = 0]
  note b = screen_on_floor_is_base_boost_floor [where action = 0 and k = hz1000 and b = boost_drv_g and policy = lp_policy
      and p = scenario_params and h = no_hints and bb = "\<lparr>boost_waitq_basic = 0, state_basic = 0\<rparr>"
      and J = 0]
  have bits: "\<not> test_bit SCREEN_OFF (state pending_boost)" "test_bit POWERHAL_BOOST (state pending_boost)"
    "\<not> test_bit SCREEN_OFF (state boost_drv_g)" "\<not> test_bit POWERHAL_BOOST (state boost_drv_g)"
    "\<not> test_bit SCREEN_OFF (state_basic \<lparr>boost_waitq_basic = 0, state_basic = 0\<rparr>)"
    by (simp_all add: pending_boost_def boost_drv_g_def test_bit_def SCREEN_OFF_def POWERHAL_BOOST_def)
  have adj: "(0 :: ulong) = CPUFREQ_ADJUST hz1000" by (simp add: hz1000_consts)
  have 1: "floor_of (cpu_notifier_cb hz1000 scenario_params 0 lp_policy pending_boost no_hints)
      = Inr (max (boost_min_freq_lp scenario_params) (cpuinfo_min_freq lp_policy))"
    using adj bits(1) lp_policy_in_mask by (intro a [THEN conjunct1, THEN mp] conjI)
  have 2: "floor_of (cpu_notifier_cb hz1000 scenario_params 0 lp_policy boost_drv_g no_hints)
      = Inr (max (boost_min_freq_lp scenario_params) (cpuinfo_min_freq lp_policy))"
    using adj bits(3) lp_policy_in_mask by (intro b [THEN conjunct1, THEN mp] conjI)
  have 3: "floor_of_basic (cpu_notifier_cb_basic hz1000 scenario_params 0 lp_policy
        \<lparr>boost_waitq_basic = 0, state_basic = 0\<rparr>)
      = Inr (max (boost_min_freq_lp scenario_params) (cpuinfo_min_freq lp_policy))"
    using adj bits(5) lp_policy_in_mask by (intro b [THEN conjunct2, THEN conjunct1, THEN mp] conjI)
  show ?thesis using bits 1 2 3 by (simp only: scenario_floor simp_thms)
qed

subsection \<open>C6: the display turns on\<close>

text \<open>
  C6, at the failing input. The early blank event with \<^verbatim>\<open>FB_BLANK_UNBLANK\<close> while the
  screen-off bit is set: both variants clear the bit and make no \<^verbatim>\<open>wake_up\<close> (the count
  of the wait queue stays 1), while the sibling branch, here with blank level 4, sets the
  bit and wakes the coordinator (the count becomes 2).
\<close>

theorem unblank_clears_screen_off_without_wake:
  "fb_notifier_cb hz1000 16 0 (boost_drv_g\<lparr>state := 1, boost_waitq := 1\<rparr>) no_hints
     = (boost_drv_g\<lparr>state := 0, boost_waitq := 1\<rparr>, no_hints)
   \<and> fb_notifier_cb_basic hz1000 16 0 \<lparr>boost_waitq_basic = 1, state_basic = 1\<rparr>
     = \<lparr>boost_waitq_basic = 1, state_basic = 0\<rparr>
   \<and> fb_notifier_cb hz1000 16 4 (boost_drv_g\<lparr>state := 0, boost_waitq := 1\<rparr>) no_hints
     = (boost_drv_g\<lparr>state := 1, boost_waitq := 2\<rparr>, no_hints)
   \<and> fb_notifier_cb_basic hz1000 16 4 \<lparr>boost_waitq_basic = 1, state_basic = 0\<rparr>
     = \<lparr>boost_waitq_basic = 2, state_basic = 1\<rparr>"
  by (simp add: fb_notifier_cb_def fb_notifier_cb_basic_def hz1000_def boost_drv_g_def clear_bit_def
      set_bit_ul_def SCREEN_OFF_def wake_up_def wake_up_basic_def disable_schedtune_boost_def no_hints_def)

subsection \<open>C7: stopping the coordinator\<close>

text \<open>
  C7 as stated fails: the thread last acted on state 0 and wakes with the stop signal
  raised and state 1. It issues the recompute for state 1 and returns only at the next
  evaluation of the condition.
\<close>

theorem stop_with_state_change_still_recomputes:
  "cpu_boost_thread [(1, True), (1, True)] = ([1], Returned)"
  by (simp add: cpu_boost_thread_def)

text \<open>
  C7, amended. When the condition is evaluated with the stop signal raised and the
  state equal to the last value acted on, the thread returns and issues no recompute.
  When the state differs, the left operand of \<^verbatim>\<open>||\<close> decides alone, whatever the stop
  signal is: the recompute for that state is issued and the thread goes on; if the stop
  signal is still raised and the state unchanged at the next evaluation, it returns
  then, after that one recompute.
\<close>

theorem stop_observed_only_when_state_unchanged:
  "cpu_boost_thread_loop old_state ((old_state, True) # obs) = ([], Returned)
   \<and> (curr_state \<noteq> old_state \<longrightarrow>
        cpu_boost_thread_loop old_state ((curr_state, stop) # obs)
          = (curr_state # fst (cpu_boost_thread_loop curr_state obs),
             snd (cpu_boost_thread_loop curr_state obs)))
   \<and> (curr_state \<noteq> old_state \<longrightarrow>
        cpu_boost_thread_loop old_state ((curr_state, True) # (curr_state, True) # obs)
          = ([curr_state], Returned))"
  by (simp add: Let_def)

theorem stop_observed_only_when_state_unchanged_witness:
  "cpu_boost_thread_loop 0 [(0, True), (2, False)] = ([], Returned)
   \<and> cpu_boost_thread_loop 0 [(2, True), (2, True), (0, False)] = ([2], Returned)"
  using stop_observed_only_when_state_unchanged [of 0 "[(2, False)]" 2 True] stop_observed_only_when_state_unchanged [of 0 "[(0, False)]" 2 True]
  by simp

subsection \<open>C8: the floor outside the low-power mask\<close>

text \<open>
  C8, at the failing input. For a policy whose CPU (here CPU 4) is not in the low-power
  mask, \<open>get_min_freq\<close> and \<open>get_idle_freq\<close> read the local \<^verbatim>\<open>freq\<close> that was never
  assigned, and the floor the bridge stores comes from that read, with the screen on or
  off and in both variants.
\<close>

theorem floor_uninitialized_outside_lp_mask:
  "\<not> cpumask_test_cpu (cpu perf_policy) (cpu_lp_mask hz1000)
   \<and> get_min_freq hz1000 scenario_params perf_policy = Inl Uninitialized_read
   \<and> get_idle_freq hz1000 scenario_params perf_policy = Inl Uninitialized_read
   \<and> floor_of (cpu_notifier_cb hz1000 scenario_params 0 perf_policy boost_drv_g no_hints)
        = Inl Uninitialized_read
   \<and> floor_of (cpu_notifier_cb hz1000 scenario_params 0 perf_policy (boost_drv_g\<lparr>state := 1\<rparr>) no_hints)
        = Inl Uninitialized_read
   \<and> floor_of_basic (cpu_notifier_cb_basic hz1000 scenario_params 0 perf_policy
        \<lparr>boost_waitq_basic = 0, state_basic = 1\<rparr>) = Inl Uninitialized_read"
  by (simp add: get_min_freq_def get_idle_freq_def cpu_notifier_cb_def cpu_notifier_cb_basic_def
      floor_of_def floor_of_basic_def store_min_def
      hz1000_def perf_policy_def cpumask_test_cpu_def boost_drv_g_def test_bit_def SCREEN_OFF_def Let_def)

subsection \<open>C9: failure of init\<close>

text \<open>
  C9, at the failing input. In the richer variant \<^verbatim>\<open>pm_qos_add_request\<close> comes first;
  when \<^verbatim>\<open>cpufreq_register_notifier\<close> then fails, the function returns the error at
  once and the latency request stays registered. (The later failures go through the
  labels, which remove it, in the reverse order of the registrations:
  \<open>init_later_failures_unwind\<close>, \<open>init_later_failures_reverse_order\<close>.)
\<close>

theorem init_leaks_pm_qos_request:
  "cpu_input_boost_init cpufreq_fails = (- 22, [Register Pm_qos_request])
   \<and> in_effect (snd (cpu_input_boost_init cpufreq_fails)) [] = [Pm_qos_request]"
  by (simp add: cpu_input_boost_init_def cpufreq_fails_def)

subsection \<open>C10: the latency request while the screen is off\<close>

text \<open>
  C10. In the richer variant a run of the bridge with the screen-off bit set leaves the
  CPU-DMA-latency request at the value it had. A run of the bridge that changes the
  request to the default value (the default being other than 43) is a
  \<^verbatim>\<open>CPUFREQ_ADJUST\<close> run with the screen-off and max-boost bits clear, and every such
  run sets the default.
\<close>

theorem screen_off_keeps_latency_request:
  "(test_bit SCREEN_OFF (state b) \<longrightarrow>
      pm_qos_req (fst (snd (cpu_notifier_cb k p action policy b h))) = pm_qos_req b)
   \<and> (pm_qos_req (fst (snd (cpu_notifier_cb k p action policy b h))) \<noteq> pm_qos_req b
        \<and> pm_qos_req (fst (snd (cpu_notifier_cb k p action policy b h)))
            = PM_QOS_CPU_DMA_LAT_DEFAULT_VALUE k
        \<and> PM_QOS_CPU_DMA_LAT_DEFAULT_VALUE k \<noteq> 43
      \<longrightarrow> action = CPUFREQ_ADJUST k \<and> \<not> test_bit SCREEN_OFF (state b)
          \<and> \<not> test_bit POWERHAL_MAX_BOOST (state b))
   \<and> (action = CPUFREQ_ADJUST k \<and> \<not> test_bit SCREEN_OFF (state b)
        \<and> \<not> test_bit POWERHAL_MAX_BOOST (state b)
      \<longrightarrow> pm_qos_req (fst (snd (cpu_notifier_cb k p action policy b h)))
            = PM_QOS_CPU_DMA_LAT_DEFAULT_VALUE k)"
  unfolding bridge_pm_qos by (simp split: if_splits)

theorem screen_off_keeps_latency_request_witness:
  "test_bit SCREEN_OFF (state screen_off_max_boost) \<and> test_bit POWERHAL_MAX_BOOST (state screen_off_max_boost)
   \<and> pm_qos_req screen_off_max_boost = 43
   \<and> pm_qos_req (fst (snd (cpu_notifier_cb hz1000 scenario_params 0 lp_policy screen_off_max_boost no_hints))) = 43
   \<and> pm_qos_req (fst (snd (cpu_notifier_cb hz1000 scenario_params 0 perf_policy screen_off_max_boost no_hints))) = 43
   \<and> \<not> test_bit SCREEN_OFF (state (screen_off_max_boost\<lparr>state := 0\<rparr>))
   \<and> \<not> test_bit POWERHAL_MAX_BOOST (state (screen_off_max_boost\<lparr>state := 0\<rparr>))
   \<and> pm_qos_req (fst (snd (cpu_notifier_cb hz1000 scenario_params 0 lp_policy
        (screen_off_max_boost\<lparr>state := 0\<rparr>) no_hints))) = 2000000000"
proof -
  note off = screen_off_keeps_latency_request [where b = screen_off_max_boost and k = hz1000 and p = scenario_params
      and action = 0 and policy = lp_policy and h = no_hints]
  note off_perf = screen_off_keeps_latency_request [where b = screen_off_max_boost and k = hz1000 and p = scenario_params
      and action = 0 and policy = perf_policy and h = no_hints]
  note on = screen_off_keeps_latency_request [where b = "screen_off_max_boost\<lparr>state := 0\<rparr>" and k = hz1000 and p = scenario_params
      and action = 0 and policy = lp_policy and h = no_hints]
  have bits: "test_bit SCREEN_OFF (state screen_off_max_boost)"
    "test_bit POWERHAL_MAX_BOOST (state screen_off_max_boost)"
    "\<not> test_bit SCREEN_OFF (state (screen_off_max_boost\<lparr>state := 0\<rparr>))"
    "\<not> test_bit POWERHAL_MAX_BOOST (state (screen_off_max_boost\<lparr>state := 0\<rparr>))"
    by (simp_all add: screen_off_max_boost_def test_bit_def SCREEN_OFF_def POWERHAL_MAX_BOOST_def)
  have v: "pm_qos_req screen_off_max_boost = 43" by (simp add: screen_off_max_boost_def)
  have adj: "(0 :: ulong) = CPUFREQ_ADJUST hz1000" by (simp add: hz1000_consts)
  have d: "PM_QOS_CPU_DMA_LAT_DEFAULT_VALUE hz1000 = 2000000000" by (simp add: hz1000_consts)
  have 1: "pm_qos_req (fst (snd (cpu_notifier_cb hz1000 scenario_params 0 lp_policy screen_off_max_boost no_hints))) = 43"
    using off [THEN conjunct1, THEN mp, OF bits(1)] v by simp
  have 2: "pm_qos_req (fst (snd (cpu_notifier_cb hz1000 scenario_params 0 perf_policy screen_off_max_boost no_hints))) = 43"
    using off_perf [THEN conjunct1, THEN mp, OF bits(1)] v by simp
  have "pm_qos_req (fst (snd (cpu_notifier_cb hz1000 scenario_params 0 lp_policy
        (screen_off_max_boost\<lparr>state := 0\<rparr>) no_hints))) = PM_QOS_CPU_DMA_LAT_DEFAULT_VALUE hz1000"
    using adj bits(3,4) by (intro on [THEN conjunct2, THEN conjunct2, THEN mp] conjI)
  then have 3: "pm_qos_req (fst (snd (cpu_notifier_cb hz1000 scenario_params 0 lp_policy
        (screen_off_max_boost\<lparr>state := 0\<rparr>) no_hints))) = 2000000000"
    by (simp only: d)
  show ?thesis using bits v 1 2 3 by blast
qed

end
